theory Spec2Isabelle
  imports Main
begin

section \<open>Data model\<close>

text \<open>
  The plugin reads \<open>api.PodSandbox\<close> and \<open>api.Container\<close> values and builds an
  \<open>api.ContainerAdjustment\<close>. Only the fields that \<open>systemdplugin.go\<close> reads or writes
  are kept. Go strings are byte sequences, so they are HOL strings. The sandbox pointer may
  be nil and is an \<open>option\<close>; the container pointer and the mount pointers are dereferenced
  by the code without a check and are plain values here. Logging (\<open>log.Infof\<close>,
  \<open>dump\<close>) has no influence on the returned values and is left out.
\<close>

record Mount =
  mnt_Destination :: string
  mnt_Type :: string
  mnt_Source :: string
  mnt_Options :: "string list"

record PodSandbox =
  pod_Name :: string
  pod_Annotations :: "string \<rightharpoonup> string"

record Container =
  ctr_Id :: string
  ctr_Name :: string
  ctr_Args :: "string list"
  ctr_Env :: "string list"
  ctr_Mounts :: "Mount list"

text \<open>
  Modelled from the spec: the type \<open>api.ContainerAdjustment\<close> and its methods
  \<open>RemoveMount\<close>, \<open>AddMount\<close> and \<open>AddEnv\<close> belong to the NRI library and are not
  part of the sources. The spec describes the adjustment as an accumulator of mount-removal
  directives (by destination), mount-addition directives (a full mount) and environment
  additions (key, value pairs) that does not deduplicate. Each method records one directive
  at the end of its sequence.
\<close>

datatype MountDirective = MountRemoval string | MountAddition Mount

record ContainerAdjustment =
  adj_Mounts :: "MountDirective list"
  adj_Env :: "(string \<times> string) list"

definition emptyAdjustment :: ContainerAdjustment where
  "emptyAdjustment = \<lparr>adj_Mounts = [], adj_Env = []\<rparr>"

definition RemoveMount :: "string \<Rightarrow> ContainerAdjustment \<Rightarrow> ContainerAdjustment" where
  "RemoveMount containerPath a = a\<lparr>adj_Mounts := adj_Mounts a @ [MountRemoval containerPath]\<rparr>"

definition AddMount :: "Mount \<Rightarrow> ContainerAdjustment \<Rightarrow> ContainerAdjustment" where
  "AddMount m a = a\<lparr>adj_Mounts := adj_Mounts a @ [MountAddition m]\<rparr>"

definition AddEnv :: "string \<Rightarrow> string \<Rightarrow> ContainerAdjustment \<Rightarrow> ContainerAdjustment" where
  "AddEnv key val a = a\<lparr>adj_Env := adj_Env a @ [(key, val)]\<rparr>"

text \<open>The handler never builds a \<open>ContainerUpdate\<close>; the type only appears in its result.\<close>

datatype ContainerUpdate = ContainerUpdate string

datatype error = Errorf string

text \<open>
  The outcome of \<open>os.Stat("/sys/fs/cgroup")\<close> on the host: success, an error for which
  \<open>os.IsNotExist\<close> holds, or any other error.
\<close>

datatype StatResult = StatOk | StatNotExist | StatOtherError

section \<open>Detector\<close>

definition isSystemdContainer :: "Container \<Rightarrow> bool" where
  "isSystemdContainer container =
    (if length (ctr_Args container) = 0 then False
     else (let cmd = ctr_Args container ! 0 in
       if cmd = ''/sbin/init'' \<or> cmd = ''/lib/systemd/systemd''
          \<or> cmd = ''/usr/lib/systemd/systemd''
       then True
       else False))"

section \<open>Cgroup mount\<close>

text \<open>The first loop of \<open>configureCgroupMount\<close>: the first mount at \<open>/sys/fs/cgroup\<close>.\<close>

fun findCgroupMount :: "Mount list \<Rightarrow> Mount option" where
  "findCgroupMount [] = None"
| "findCgroupMount (mount # mounts) =
    (if mnt_Destination mount = ''/sys/fs/cgroup'' then Some mount
     else findCgroupMount mounts)"

text \<open>The second loop: does any option equal \<open>ro\<close>.\<close>

fun hasRO :: "string list \<Rightarrow> bool" where
  "hasRO [] = False"
| "hasRO (opt # opts) = (if opt = ''ro'' then True else hasRO opts)"

text \<open>The third loop appends to \<open>options\<close> one entry per original option.\<close>

fun rewriteOptions :: "string list \<Rightarrow> string list \<Rightarrow> string list" where
  "rewriteOptions options [] = options"
| "rewriteOptions options (opt # opts) =
    (if opt = ''ro'' then rewriteOptions (options @ [''rw'']) opts
     else rewriteOptions (options @ [opt]) opts)"

text \<open>
  The adjustment is changed in place by the source; here the changed adjustment is returned
  next to the error. \<open>ctrName\<close> is only used in log lines.
\<close>

definition configureCgroupMount ::
  "StatResult \<Rightarrow> ContainerAdjustment \<Rightarrow> Container \<Rightarrow> string
    \<Rightarrow> ContainerAdjustment \<times> error option" where
  "configureCgroupMount stat adjust container ctrName =
    (if stat = StatNotExist then (adjust, None)
     else (case findCgroupMount (ctr_Mounts container) of
        None \<Rightarrow> (adjust, Some (Errorf ''cgroup mount required for systemd container''))
      | Some existingMount \<Rightarrow>
          if \<not> hasRO (mnt_Options existingMount) then (adjust, None)
          else (let options = rewriteOptions [] (mnt_Options existingMount) in
            (AddMount \<lparr>mnt_Destination = mnt_Destination existingMount,
                       mnt_Type = mnt_Type existingMount,
                       mnt_Source = mnt_Source existingMount,
                       mnt_Options = options\<rparr>
               (RemoveMount ''/sys/fs/cgroup'' adjust), None))))"

section \<open>Auxiliary tmpfs mounts\<close>

definition tmpfsMounts :: "(string \<times> string) list" where
  "tmpfsMounts =
    [(''/run'', ''mode=755''),
     (''/run/lock'', ''mode=755''),
     (''/tmp'', ''mode=1777''),
     (''/var/log/journal'', ''mode=755'')]"

text \<open>
  \<open>existingMounts\<close> is a Go \<open>map[string]bool\<close>: a missing key reads as false.
\<close>

fun existingMountsOf :: "(string \<Rightarrow> bool) \<Rightarrow> Mount list \<Rightarrow> (string \<Rightarrow> bool)" where
  "existingMountsOf existingMounts [] = existingMounts"
| "existingMountsOf existingMounts (mount # mounts) =
    existingMountsOf (existingMounts(mnt_Destination mount := True)) mounts"

definition tmpfsMount :: "string \<Rightarrow> string \<Rightarrow> Mount" where
  "tmpfsMount dest mode =
    \<lparr>mnt_Destination = dest, mnt_Type = ''tmpfs'', mnt_Source = ''tmpfs'',
     mnt_Options = [''rw'', ''rprivate'', ''nosuid'', ''nodev'', mode]\<rparr>"

fun addTmpfsLoop ::
  "(string \<Rightarrow> bool) \<Rightarrow> ContainerAdjustment \<Rightarrow> (string \<times> string) list
    \<Rightarrow> ContainerAdjustment" where
  "addTmpfsLoop existingMounts adjust [] = adjust"
| "addTmpfsLoop existingMounts adjust ((dest, mode) # ms) =
    (if existingMounts dest then addTmpfsLoop existingMounts adjust ms
     else addTmpfsLoop existingMounts (AddMount (tmpfsMount dest mode) adjust) ms)"

definition addSystemdTmpfsMounts :: "ContainerAdjustment \<Rightarrow> Container \<Rightarrow> ContainerAdjustment" where
  "addSystemdTmpfsMounts adjust container =
    (let existingMounts = existingMountsOf (\<lambda>_. False) (ctr_Mounts container)
     in addTmpfsLoop existingMounts adjust tmpfsMounts)"

section \<open>Environment\<close>

text \<open>Go's \<open>strings.HasPrefix\<close>.\<close>

definition HasPrefix :: "string \<Rightarrow> string \<Rightarrow> bool" where
  "HasPrefix s pre = (length s \<ge> length pre \<and> take (length pre) s = pre)"

fun hasContainerUUID :: "string list \<Rightarrow> bool" where
  "hasContainerUUID [] = False"
| "hasContainerUUID (env # envs) =
    (if HasPrefix env ''container_uuid='' then True else hasContainerUUID envs)"

definition setSystemdEnvironment ::
  "ContainerAdjustment \<Rightarrow> PodSandbox option \<Rightarrow> Container \<Rightarrow> ContainerAdjustment" where
  "setSystemdEnvironment adjust pod container =
    (let adjust1 = AddEnv ''container'' ''other'' adjust;
         hasUUID = hasContainerUUID (ctr_Env container);
         adjust2 = (if \<not> hasUUID \<and> ctr_Id container \<noteq> ''''
                    then AddEnv ''container_uuid'' (ctr_Id container) adjust1
                    else adjust1)
     in (case pod of
           None \<Rightarrow> adjust2
         | Some p \<Rightarrow>
            (case pod_Annotations p ''io.kubernetes.pod.uid'' of
               None \<Rightarrow> adjust2
             | Some uuid \<Rightarrow>
                 if \<not> hasUUID then AddEnv ''container_uuid'' uuid adjust2 else adjust2)))"

definition containerName :: "PodSandbox option \<Rightarrow> Container \<Rightarrow> string" where
  "containerName pod container =
    (case pod of
       Some p \<Rightarrow> pod_Name p @ ''/'' @ ctr_Name container
     | None \<Rightarrow> ctr_Name container)"

section \<open>Request handler\<close>

definition CreateContainer ::
  "StatResult \<Rightarrow> PodSandbox option \<Rightarrow> Container
    \<Rightarrow> ContainerAdjustment option \<times> ContainerUpdate list option \<times> error option" where
  "CreateContainer stat pod container =
    (let ctrName = containerName pod container in
     if \<not> isSystemdContainer container then (None, None, None)
     else (let adjust = emptyAdjustment in
       (case configureCgroupMount stat adjust container ctrName of
          (adjust1, Some err) \<Rightarrow> (None, None, Some err)
        | (adjust1, None) \<Rightarrow>
            (let adjust2 = addSystemdTmpfsMounts adjust1 container;
                 adjust3 = setSystemdEnvironment adjust2 pod container
             in (Some adjust3, None, None)))))"

section \<open>Vocabulary of the properties\<close>

text \<open>The destination a mount directive is about.\<close>

fun directiveDestination :: "MountDirective \<Rightarrow> string" where
  "directiveDestination (MountRemoval dest) = dest"
| "directiveDestination (MountAddition m) = mnt_Destination m"

text \<open>
  The directives the tmpfs loop is expected to record for a catalog, given which
  destinations count as declared.
\<close>

definition tmpfsAdditions ::
  "(string \<Rightarrow> bool) \<Rightarrow> (string \<times> string) list \<Rightarrow> MountDirective list" where
  "tmpfsAdditions declared cat =
    map (\<lambda>(dest, mode). MountAddition
          \<lparr>mnt_Destination = dest, mnt_Type = ''tmpfs'', mnt_Source = ''tmpfs'',
           mnt_Options = [''rw'', ''rprivate'', ''nosuid'', ''nodev'', mode]\<rparr>)
      (filter (\<lambda>(dest, mode). \<not> declared dest) cat)"

text \<open>
  The \<open>container_uuid\<close> additions that \<open>setSystemdEnvironment\<close> derives from the
  container id and from the sandbox annotation.
\<close>

definition uuidFromId :: "Container \<Rightarrow> (string \<times> string) list" where
  "uuidFromId c =
    (if \<not> hasContainerUUID (ctr_Env c) \<and> ctr_Id c \<noteq> ''''
     then [(''container_uuid'', ctr_Id c)] else [])"

definition uuidFromPod :: "PodSandbox option \<Rightarrow> Container \<Rightarrow> (string \<times> string) list" where
  "uuidFromPod pod c =
    (case pod of
       None \<Rightarrow> []
     | Some p \<Rightarrow>
        (case pod_Annotations p ''io.kubernetes.pod.uid'' of
           None \<Rightarrow> []
         | Some uuid \<Rightarrow>
             if \<not> hasContainerUUID (ctr_Env c) then [(''container_uuid'', uuid)] else []))"

text \<open>
  Modelled from the spec: applying an adjustment to a container is the work of the container
  runtime and is not part of the sources. Following the spec's idempotence property, the
  directives are applied in the order they were recorded: a removal drops the declared
  mounts at its destination, an addition appends its mount, and an environment addition
  appends the entry \<open>KEY=VALUE\<close>.
\<close>

fun applyMountDirective :: "Mount list \<Rightarrow> MountDirective \<Rightarrow> Mount list" where
  "applyMountDirective mounts (MountRemoval dest) =
    filter (\<lambda>m. mnt_Destination m \<noteq> dest) mounts"
| "applyMountDirective mounts (MountAddition m) = mounts @ [m]"

definition applyAdjustment :: "ContainerAdjustment \<Rightarrow> Container \<Rightarrow> Container" where
  "applyAdjustment adjust container =
    container\<lparr>ctr_Mounts :=
                foldl applyMountDirective (ctr_Mounts container) (adj_Mounts adjust),
              ctr_Env :=
                ctr_Env container @ map (\<lambda>(key, val). key @ ''='' @ val) (adj_Env adjust)\<rparr>"

section \<open>Basic facts about the loops\<close>

lemma findCgroupMount_None:
  "findCgroupMount ms = None \<longleftrightarrow> ''/sys/fs/cgroup'' \<notin> mnt_Destination ` set ms"
  by (induction ms) auto

lemma findCgroupMount_find:
  "findCgroupMount ms = find (\<lambda>m. mnt_Destination m = ''/sys/fs/cgroup'') ms"
  by (induction ms) auto

lemma findCgroupMount_dest:
  "findCgroupMount ms = Some m \<Longrightarrow> mnt_Destination m = ''/sys/fs/cgroup''"
  by (induction ms) (auto split: if_splits)

lemma hasRO_set: "hasRO opts \<longleftrightarrow> ''ro'' \<in> set opts"
  by (induction opts) auto

lemma rewriteOptions_map:
  "rewriteOptions acc opts = acc @ map (\<lambda>opt. if opt = ''ro'' then ''rw'' else opt) opts"
  by (induction opts arbitrary: acc) auto

lemma existingMountsOf_iff:
  "existingMountsOf em ms d \<longleftrightarrow> em d \<or> d \<in> mnt_Destination ` set ms"
  by (induction ms arbitrary: em) auto

lemma hasContainerUUID_set:
  "hasContainerUUID envs \<longleftrightarrow> (\<exists>e \<in> set envs. HasPrefix e ''container_uuid='')"
  by (induction envs) auto

section \<open>The detector\<close>

text \<open>
  C4. The detector returns false when \<open>args\<close> is empty. Otherwise it returns true exactly
  when the first argument is one of \<open>/sbin/init\<close>, \<open>/lib/systemd/systemd\<close>,
  \<open>/usr/lib/systemd/systemd\<close>, whatever the remaining arguments are; any other first
  argument gives false.
\<close>

theorem isSystemdContainer_first_arg:
  "(ctr_Args c = [] \<longrightarrow> \<not> isSystemdContainer c) \<and>
   (\<forall>cmd rest. ctr_Args c = cmd # rest \<longrightarrow>
      (isSystemdContainer c \<longleftrightarrow>
         cmd = ''/sbin/init'' \<or> cmd = ''/lib/systemd/systemd''
         \<or> cmd = ''/usr/lib/systemd/systemd''))"
  by (auto simp: isSystemdContainer_def Let_def)

theorem isSystemdContainer_first_arg_witness:
  "isSystemdContainer \<lparr>ctr_Id = ''abc123'', ctr_Name = ''init'',
      ctr_Args = [''/sbin/init'', ''--log-target=journal''], ctr_Env = [], ctr_Mounts = []\<rparr>
   \<and> \<not> isSystemdContainer \<lparr>ctr_Id = ''abc123'', ctr_Name = ''init'',
      ctr_Args = [], ctr_Env = [], ctr_Mounts = []\<rparr>"
  using isSystemdContainer_first_arg [of "\<lparr>ctr_Id = ''abc123'', ctr_Name = ''init'',
      ctr_Args = [''/sbin/init'', ''--log-target=journal''], ctr_Env = [], ctr_Mounts = []\<rparr>"]
    isSystemdContainer_first_arg [of "\<lparr>ctr_Id = ''abc123'', ctr_Name = ''init'',
      ctr_Args = [], ctr_Env = [], ctr_Mounts = []\<rparr>"]
  by simp

section \<open>Shape of the handler's result\<close>

lemma adj_Mounts_AddEnv [simp]: "adj_Mounts (AddEnv k v a) = adj_Mounts a"
  by (simp add: AddEnv_def)

lemma adj_Env_AddEnv [simp]: "adj_Env (AddEnv k v a) = adj_Env a @ [(k, v)]"
  by (simp add: AddEnv_def)

lemma adj_Mounts_AddMount [simp]: "adj_Mounts (AddMount m a) = adj_Mounts a @ [MountAddition m]"
  by (simp add: AddMount_def)

lemma adj_Env_AddMount [simp]: "adj_Env (AddMount m a) = adj_Env a"
  by (simp add: AddMount_def)

lemma adj_Mounts_RemoveMount [simp]:
  "adj_Mounts (RemoveMount d a) = adj_Mounts a @ [MountRemoval d]"
  by (simp add: RemoveMount_def)

lemma adj_Env_RemoveMount [simp]: "adj_Env (RemoveMount d a) = adj_Env a"
  by (simp add: RemoveMount_def)

lemma addTmpfsLoop_Mounts:
  "adj_Mounts (addTmpfsLoop em a cat) = adj_Mounts a @ tmpfsAdditions em cat"
  by (induction em a cat rule: addTmpfsLoop.induct)
    (simp_all add: tmpfsAdditions_def tmpfsMount_def)

lemma addTmpfsLoop_Env: "adj_Env (addTmpfsLoop em a cat) = adj_Env a"
  by (induction em a cat rule: addTmpfsLoop.induct) simp_all

lemma existingMountsOf_empty:
  "existingMountsOf (\<lambda>_. False) ms = (\<lambda>d. d \<in> mnt_Destination ` set ms)"
  by (rule ext) (simp add: existingMountsOf_iff)

lemma addSystemdTmpfsMounts_Mounts:
  "adj_Mounts (addSystemdTmpfsMounts a c) =
    adj_Mounts a @ tmpfsAdditions (\<lambda>d. d \<in> mnt_Destination ` set (ctr_Mounts c)) tmpfsMounts"
  by (simp add: addSystemdTmpfsMounts_def addTmpfsLoop_Mounts existingMountsOf_empty)

lemma addSystemdTmpfsMounts_Env: "adj_Env (addSystemdTmpfsMounts a c) = adj_Env a"
  by (simp add: addSystemdTmpfsMounts_def addTmpfsLoop_Env)

lemma tmpfsAdditions_not_cgroup:
  "filter (\<lambda>d. directiveDestination d = ''/sys/fs/cgroup'')
     (tmpfsAdditions declared tmpfsMounts) = []"
  by (simp add: tmpfsAdditions_def tmpfsMounts_def)

lemma setSystemdEnvironment_Mounts: "adj_Mounts (setSystemdEnvironment a pod c) = adj_Mounts a"
  by (simp add: setSystemdEnvironment_def Let_def split: option.splits)

lemma setSystemdEnvironment_Env:
  "adj_Env (setSystemdEnvironment a pod c) =
    adj_Env a @ [(''container'', ''other'')] @ uuidFromId c @ uuidFromPod pod c"
  by (simp add: setSystemdEnvironment_def Let_def uuidFromId_def uuidFromPod_def
      split: option.splits)

lemma CreateContainer_systemd:
  "isSystemdContainer c \<Longrightarrow>
   CreateContainer stat pod c =
    (case configureCgroupMount stat emptyAdjustment c (containerName pod c) of
       (a, Some e) \<Rightarrow> (None, None, Some e)
     | (a, None) \<Rightarrow>
         (Some (setSystemdEnvironment (addSystemdTmpfsMounts a c) pod c), None, None))"
  by (simp add: CreateContainer_def Let_def split: prod.splits option.splits)

lemma CreateContainer_Some:
  assumes "CreateContainer stat pod c = (Some adj, upd, err)"
  shows "isSystemdContainer c" and "upd = None" and "err = None"
    and "\<exists>b. configureCgroupMount stat emptyAdjustment c (containerName pod c) = (b, None)
          \<and> adj = setSystemdEnvironment (addSystemdTmpfsMounts b c) pod c"
  using assms
  by (auto simp: CreateContainer_def Let_def split: if_splits prod.splits option.splits)

lemma configureCgroupMount_cases:
  "configureCgroupMount stat a c n =
    (if stat = StatNotExist then (a, None)
     else (case find (\<lambda>m. mnt_Destination m = ''/sys/fs/cgroup'') (ctr_Mounts c) of
        None \<Rightarrow> (a, Some (Errorf ''cgroup mount required for systemd container''))
      | Some m \<Rightarrow>
          if ''ro'' \<in> set (mnt_Options m)
          then (a\<lparr>adj_Mounts := adj_Mounts a @
                  [MountRemoval ''/sys/fs/cgroup'',
                   MountAddition (m\<lparr>mnt_Options :=
                     map (\<lambda>opt. if opt = ''ro'' then ''rw'' else opt) (mnt_Options m)\<rparr>)]\<rparr>, None)
          else (a, None)))"
  by (auto simp: configureCgroupMount_def findCgroupMount_find hasRO_set rewriteOptions_map
      Let_def AddMount_def RemoveMount_def split: option.splits)

section \<open>Non-systemd containers\<close>

text \<open>
  C8. For a container the detector classifies as non-systemd the handler returns a nil
  adjustment, nil updates and a nil error. This result is different from one that carries an
  empty adjustment, and it carries no mount or environment directive at all.
\<close>

theorem CreateContainer_not_systemd:
  "\<not> isSystemdContainer c \<Longrightarrow>
   CreateContainer stat pod c = (None, None, None) \<and>
   CreateContainer stat pod c \<noteq> (Some emptyAdjustment, None, None)"
  by (simp add: CreateContainer_def)

theorem CreateContainer_not_systemd_witness:
  "\<not> isSystemdContainer \<lparr>ctr_Id = ''abc123'', ctr_Name = ''test-container'',
      ctr_Args = [''/bin/bash''], ctr_Env = [], ctr_Mounts = []\<rparr> \<and>
   CreateContainer StatOk (Some \<lparr>pod_Name = ''test-pod'', pod_Annotations = Map.empty\<rparr>)
     \<lparr>ctr_Id = ''abc123'', ctr_Name = ''test-container'',
      ctr_Args = [''/bin/bash''], ctr_Env = [], ctr_Mounts = []\<rparr> = (None, None, None)"
proof -
  have h: "\<not> isSystemdContainer \<lparr>ctr_Id = ''abc123'', ctr_Name = ''test-container'',
      ctr_Args = [''/bin/bash''], ctr_Env = [], ctr_Mounts = []\<rparr>"
    by (simp add: isSystemdContainer_def)
  show ?thesis
    using h CreateContainer_not_systemd [OF h, of StatOk
        "Some \<lparr>pod_Name = ''test-pod'', pod_Annotations = Map.empty\<rparr>"]
    by simp
qed

section \<open>The cgroup mount\<close>

text \<open>
  C2. For a detected systemd container that declares no mount whose destination is exactly
  \<open>/sys/fs/cgroup\<close>, on a host where the cgroup filesystem is present (the host probe
  does not report that the path is missing), the handler returns an error together with a
  nil adjustment and nil updates: no partial adjustment is returned.
\<close>

theorem CreateContainer_missing_cgroup_mount:
  assumes "isSystemdContainer c"
    and "''/sys/fs/cgroup'' \<notin> mnt_Destination ` set (ctr_Mounts c)"
    and "stat \<noteq> StatNotExist"
  shows "CreateContainer stat pod c =
    (None, None, Some (Errorf ''cgroup mount required for systemd container''))"
proof -
  from assms(2) have "findCgroupMount (ctr_Mounts c) = None"
    by (simp add: findCgroupMount_None)
  with assms(3) have "configureCgroupMount stat emptyAdjustment c (containerName pod c) =
      (emptyAdjustment, Some (Errorf ''cgroup mount required for systemd container''))"
    by (simp add: configureCgroupMount_def)
  with assms(1) show ?thesis
    by (simp add: CreateContainer_systemd)
qed

theorem CreateContainer_missing_cgroup_mount_witness:
  "CreateContainer StatOk (Some \<lparr>pod_Name = ''test-pod'', pod_Annotations = Map.empty\<rparr>)
     \<lparr>ctr_Id = ''abc123'', ctr_Name = ''test-container'', ctr_Args = [''/sbin/init''],
      ctr_Env = [''PATH=/usr/bin''],
      ctr_Mounts = [\<lparr>mnt_Destination = ''/proc'', mnt_Type = ''proc'', mnt_Source = ''proc'',
                     mnt_Options = [''nosuid'']\<rparr>]\<rparr>
   = (None, None, Some (Errorf ''cgroup mount required for systemd container''))"
proof -
  let ?c = "\<lparr>ctr_Id = ''abc123'', ctr_Name = ''test-container'', ctr_Args = [''/sbin/init''],
      ctr_Env = [''PATH=/usr/bin''],
      ctr_Mounts = [\<lparr>mnt_Destination = ''/proc'', mnt_Type = ''proc'', mnt_Source = ''proc'',
                     mnt_Options = [''nosuid'']\<rparr>]\<rparr>"
  have h1: "isSystemdContainer ?c"
    by (simp add: isSystemdContainer_def)
  have h2: "''/sys/fs/cgroup'' \<notin> mnt_Destination ` set (ctr_Mounts ?c)"
    by simp
  have h3: "StatOk \<noteq> StatNotExist"
    by simp
  show ?thesis
    using CreateContainer_missing_cgroup_mount [OF h1 h2 h3] by simp
qed

text \<open>
  C3. Take a detected systemd container on a host with a cgroup filesystem, and let \<open>m\<close>
  be its mount at \<open>/sys/fs/cgroup\<close> (the first one the code meets). If the options of
  \<open>m\<close> contain the token \<open>ro\<close>, the directives of the adjustment that concern
  \<open>/sys/fs/cgroup\<close> are exactly one removal followed by exactly one addition; the added
  mount has the destination, type and source of \<open>m\<close>, and its options are those of
  \<open>m\<close> with every \<open>ro\<close> replaced by \<open>rw\<close>, position by position. If \<open>ro\<close> is
  absent, no directive concerns \<open>/sys/fs/cgroup\<close>. So the removal and the addition are
  both present or both absent.
\<close>

theorem CreateContainer_cgroup_rewrite:
  assumes "isSystemdContainer c"
    and "stat \<noteq> StatNotExist"
    and "find (\<lambda>x. mnt_Destination x = ''/sys/fs/cgroup'') (ctr_Mounts c) = Some m"
  shows "\<exists>adj. CreateContainer stat pod c = (Some adj, None, None) \<and>
    filter (\<lambda>d. directiveDestination d = ''/sys/fs/cgroup'') (adj_Mounts adj) =
      (if ''ro'' \<in> set (mnt_Options m)
       then [MountRemoval ''/sys/fs/cgroup'',
             MountAddition \<lparr>mnt_Destination = mnt_Destination m, mnt_Type = mnt_Type m,
               mnt_Source = mnt_Source m,
               mnt_Options = map (\<lambda>opt. if opt = ''ro'' then ''rw'' else opt) (mnt_Options m)\<rparr>]
       else [])"
proof -
  from assms(3) have dest: "mnt_Destination m = ''/sys/fs/cgroup''"
    by (simp add: findCgroupMount_find [symmetric] findCgroupMount_dest)
  show ?thesis
  proof (cases "''ro'' \<in> set (mnt_Options m)")
    case True
    with assms(2,3) have "configureCgroupMount stat emptyAdjustment c (containerName pod c) =
      (emptyAdjustment\<lparr>adj_Mounts := adj_Mounts emptyAdjustment @
          [MountRemoval ''/sys/fs/cgroup'',
           MountAddition (m\<lparr>mnt_Options :=
             map (\<lambda>opt. if opt = ''ro'' then ''rw'' else opt) (mnt_Options m)\<rparr>)]\<rparr>, None)"
      by (simp add: configureCgroupMount_cases)
    with assms(1) True dest show ?thesis
      by (simp add: CreateContainer_systemd setSystemdEnvironment_Mounts
          addSystemdTmpfsMounts_Mounts tmpfsAdditions_not_cgroup emptyAdjustment_def)
  next
    case False
    with assms(2,3) have "configureCgroupMount stat emptyAdjustment c (containerName pod c) =
      (emptyAdjustment, None)"
      by (simp add: configureCgroupMount_cases)
    with assms(1) False show ?thesis
      by (simp add: CreateContainer_systemd setSystemdEnvironment_Mounts
          addSystemdTmpfsMounts_Mounts tmpfsAdditions_not_cgroup emptyAdjustment_def)
  qed
qed

theorem CreateContainer_cgroup_rewrite_witness:
  "\<exists>adj. CreateContainer StatOk (Some \<lparr>pod_Name = ''test-pod'', pod_Annotations = Map.empty\<rparr>)
     \<lparr>ctr_Id = ''abc123'', ctr_Name = ''test-container'', ctr_Args = [''/sbin/init''],
      ctr_Env = [''PATH=/usr/bin''],
      ctr_Mounts = [\<lparr>mnt_Destination = ''/sys/fs/cgroup'', mnt_Type = ''cgroup2'',
                      mnt_Source = ''cgroup'',
                      mnt_Options = [''ro'', ''nosuid'', ''noexec'', ''ro'', ''relatime'']\<rparr>]\<rparr>
     = (Some adj, None, None) \<and>
    filter (\<lambda>d. directiveDestination d = ''/sys/fs/cgroup'') (adj_Mounts adj) =
      [MountRemoval ''/sys/fs/cgroup'',
       MountAddition \<lparr>mnt_Destination = ''/sys/fs/cgroup'', mnt_Type = ''cgroup2'',
         mnt_Source = ''cgroup'',
         mnt_Options = [''rw'', ''nosuid'', ''noexec'', ''rw'', ''relatime'']\<rparr>]"
proof -
  let ?m = "\<lparr>mnt_Destination = ''/sys/fs/cgroup'', mnt_Type = ''cgroup2'',
      mnt_Source = ''cgroup'',
      mnt_Options = [''ro'', ''nosuid'', ''noexec'', ''ro'', ''relatime'']\<rparr>"
  let ?c = "\<lparr>ctr_Id = ''abc123'', ctr_Name = ''test-container'', ctr_Args = [''/sbin/init''],
      ctr_Env = [''PATH=/usr/bin''], ctr_Mounts = [?m]\<rparr>"
  have h1: "isSystemdContainer ?c"
    by (simp add: isSystemdContainer_def)
  have h2: "StatOk \<noteq> StatNotExist"
    by simp
  have h3: "find (\<lambda>x. mnt_Destination x = ''/sys/fs/cgroup'') (ctr_Mounts ?c) = Some ?m"
    by simp
  show ?thesis
    using CreateContainer_cgroup_rewrite [OF h1 h2 h3,
        of "Some \<lparr>pod_Name = ''test-pod'', pod_Annotations = Map.empty\<rparr>"]
    by simp
qed

section \<open>Auxiliary tmpfs mounts\<close>

text \<open>
  C5. The injector appends to the adjustment, in the catalog order \<open>/run\<close>,
  \<open>/run/lock\<close>, \<open>/tmp\<close>, \<open>/var/log/journal\<close>, one tmpfs mount (type \<open>tmpfs\<close>, source
  \<open>tmpfs\<close>, options \<open>rw\<close>, \<open>rprivate\<close>, \<open>nosuid\<close>, \<open>nodev\<close> and the catalog mode, in
  that order) for each catalog destination that no declared mount of the container has, and
  nothing for a destination that is declared. It records nothing else. A container that
  declares none of the four gets exactly the four additions in catalog order. The injector
  is a total function with no error result.
\<close>

theorem addSystemdTmpfsMounts_catalog:
  "adj_Mounts (addSystemdTmpfsMounts a c) =
     adj_Mounts a @
     tmpfsAdditions (\<lambda>dest. dest \<in> mnt_Destination ` set (ctr_Mounts c))
       [(''/run'', ''mode=755''), (''/run/lock'', ''mode=755''),
        (''/tmp'', ''mode=1777''), (''/var/log/journal'', ''mode=755'')]
   \<and> adj_Env (addSystemdTmpfsMounts a c) = adj_Env a
   \<and> ({''/run'', ''/run/lock'', ''/tmp'', ''/var/log/journal''}
        \<inter> mnt_Destination ` set (ctr_Mounts c) = {} \<longrightarrow>
      adj_Mounts (addSystemdTmpfsMounts a c) =
        adj_Mounts a @
        [MountAddition \<lparr>mnt_Destination = ''/run'', mnt_Type = ''tmpfs'', mnt_Source = ''tmpfs'',
           mnt_Options = [''rw'', ''rprivate'', ''nosuid'', ''nodev'', ''mode=755'']\<rparr>,
         MountAddition \<lparr>mnt_Destination = ''/run/lock'', mnt_Type = ''tmpfs'',
           mnt_Source = ''tmpfs'',
           mnt_Options = [''rw'', ''rprivate'', ''nosuid'', ''nodev'', ''mode=755'']\<rparr>,
         MountAddition \<lparr>mnt_Destination = ''/tmp'', mnt_Type = ''tmpfs'', mnt_Source = ''tmpfs'',
           mnt_Options = [''rw'', ''rprivate'', ''nosuid'', ''nodev'', ''mode=1777'']\<rparr>,
         MountAddition \<lparr>mnt_Destination = ''/var/log/journal'', mnt_Type = ''tmpfs'',
           mnt_Source = ''tmpfs'',
           mnt_Options = [''rw'', ''rprivate'', ''nosuid'', ''nodev'', ''mode=755'']\<rparr>])"
  by (simp add: addSystemdTmpfsMounts_Mounts addSystemdTmpfsMounts_Env tmpfsMounts_def
      tmpfsAdditions_def)

theorem addSystemdTmpfsMounts_catalog_witness:
  "adj_Mounts (addSystemdTmpfsMounts emptyAdjustment
     \<lparr>ctr_Id = ''abc123'', ctr_Name = ''test-container'', ctr_Args = [''/sbin/init''],
      ctr_Env = [],
      ctr_Mounts = [\<lparr>mnt_Destination = ''/tmp'', mnt_Type = ''bind'', mnt_Source = ''/data'',
                      mnt_Options = [''rw'']\<rparr>]\<rparr>) =
     [MountAddition \<lparr>mnt_Destination = ''/run'', mnt_Type = ''tmpfs'', mnt_Source = ''tmpfs'',
        mnt_Options = [''rw'', ''rprivate'', ''nosuid'', ''nodev'', ''mode=755'']\<rparr>,
      MountAddition \<lparr>mnt_Destination = ''/run/lock'', mnt_Type = ''tmpfs'',
        mnt_Source = ''tmpfs'',
        mnt_Options = [''rw'', ''rprivate'', ''nosuid'', ''nodev'', ''mode=755'']\<rparr>,
      MountAddition \<lparr>mnt_Destination = ''/var/log/journal'', mnt_Type = ''tmpfs'',
        mnt_Source = ''tmpfs'',
        mnt_Options = [''rw'', ''rprivate'', ''nosuid'', ''nodev'', ''mode=755'']\<rparr>]
   \<and> adj_Mounts (addSystemdTmpfsMounts emptyAdjustment
     \<lparr>ctr_Id = ''abc123'', ctr_Name = ''test-container'', ctr_Args = [''/sbin/init''],
      ctr_Env = [], ctr_Mounts = []\<rparr>) =
     [MountAddition \<lparr>mnt_Destination = ''/run'', mnt_Type = ''tmpfs'', mnt_Source = ''tmpfs'',
        mnt_Options = [''rw'', ''rprivate'', ''nosuid'', ''nodev'', ''mode=755'']\<rparr>,
      MountAddition \<lparr>mnt_Destination = ''/run/lock'', mnt_Type = ''tmpfs'',
        mnt_Source = ''tmpfs'',
        mnt_Options = [''rw'', ''rprivate'', ''nosuid'', ''nodev'', ''mode=755'']\<rparr>,
      MountAddition \<lparr>mnt_Destination = ''/tmp'', mnt_Type = ''tmpfs'', mnt_Source = ''tmpfs'',
        mnt_Options = [''rw'', ''rprivate'', ''nosuid'', ''nodev'', ''mode=1777'']\<rparr>,
      MountAddition \<lparr>mnt_Destination = ''/var/log/journal'', mnt_Type = ''tmpfs'',
        mnt_Source = ''tmpfs'',
        mnt_Options = [''rw'', ''rprivate'', ''nosuid'', ''nodev'', ''mode=755'']\<rparr>]"
  using addSystemdTmpfsMounts_catalog [of emptyAdjustment
      "\<lparr>ctr_Id = ''abc123'', ctr_Name = ''test-container'', ctr_Args = [''/sbin/init''],
        ctr_Env = [],
        ctr_Mounts = [\<lparr>mnt_Destination = ''/tmp'', mnt_Type = ''bind'', mnt_Source = ''/data'',
                        mnt_Options = [''rw'']\<rparr>]\<rparr>"]
    addSystemdTmpfsMounts_catalog [of emptyAdjustment
      "\<lparr>ctr_Id = ''abc123'', ctr_Name = ''test-container'', ctr_Args = [''/sbin/init''],
        ctr_Env = [], ctr_Mounts = []\<rparr>"]
  by (simp add: emptyAdjustment_def tmpfsAdditions_def)

section \<open>Environment\<close>

lemma HasPrefix_append: "HasPrefix (pre @ v) pre"
  by (simp add: HasPrefix_def)

lemma HasPrefix_iff: "HasPrefix s pre \<longleftrightarrow> (\<exists>v. s = pre @ v)"
proof
  assume "HasPrefix s pre"
  then have "s = pre @ drop (length pre) s"
    by (metis HasPrefix_def append_take_drop_id)
  then show "\<exists>v. s = pre @ v" ..
next
  assume "\<exists>v. s = pre @ v"
  then show "HasPrefix s pre"
    by (auto simp: HasPrefix_append)
qed

lemma hasContainerUUID_iff:
  "hasContainerUUID envs \<longleftrightarrow> (\<exists>v. ''container_uuid='' @ v \<in> set envs)"
  unfolding hasContainerUUID_set HasPrefix_iff by auto

text \<open>
  C6. When the declared environment of the container has an entry that begins with
  \<open>container_uuid=\<close>, the synthesizer adds \<open>container=other\<close> and nothing else, so no
  \<open>container_uuid\<close> variable is added, whatever the container id and the sandbox
  annotations are. The same holds for every adjustment the handler returns; the declared
  entry is not overridden.
\<close>

theorem declared_container_uuid_wins:
  assumes "''container_uuid='' @ v \<in> set (ctr_Env c)"
  shows "adj_Env (setSystemdEnvironment a pod c) = adj_Env a @ [(''container'', ''other'')]
    \<and> (\<forall>adj upd err. CreateContainer stat pod c = (Some adj, upd, err) \<longrightarrow>
          adj_Env adj = [(''container'', ''other'')]
          \<and> ''container_uuid'' \<notin> fst ` set (adj_Env adj))"
proof -
  from assms have has: "hasContainerUUID (ctr_Env c)"
    unfolding hasContainerUUID_iff by blast
  then have env: "adj_Env (setSystemdEnvironment b pod c) = adj_Env b @ [(''container'', ''other'')]"
    for b
    by (simp add: setSystemdEnvironment_Env uuidFromId_def uuidFromPod_def split: option.splits)
  have "adj_Env adj = [(''container'', ''other'')]"
    if "CreateContainer stat pod c = (Some adj, upd, err)" for adj upd err
  proof -
    from CreateContainer_Some(4) [OF that] obtain b
      where cfg: "configureCgroupMount stat emptyAdjustment c (containerName pod c) = (b, None)"
        and adj: "adj = setSystemdEnvironment (addSystemdTmpfsMounts b c) pod c"
      by blast
    from cfg have "adj_Env b = []"
      by (auto simp: configureCgroupMount_cases emptyAdjustment_def
          split: if_splits option.splits)
    with adj show ?thesis
      by (simp add: env addSystemdTmpfsMounts_Env)
  qed
  with env show ?thesis
    by simp
qed

theorem declared_container_uuid_wins_witness:
  "CreateContainer StatOk
     (Some \<lparr>pod_Name = ''test-pod'',
            pod_Annotations = [''io.kubernetes.pod.uid'' \<mapsto> ''xyz'']\<rparr>)
     \<lparr>ctr_Id = ''abc123'', ctr_Name = ''test-container'', ctr_Args = [''/sbin/init''],
      ctr_Env = [''PATH=/usr/bin'', ''container_uuid=user-value''],
      ctr_Mounts = [\<lparr>mnt_Destination = ''/sys/fs/cgroup'', mnt_Type = ''cgroup'',
                      mnt_Source = ''cgroup'', mnt_Options = [''nosuid'', ''rw'']\<rparr>]\<rparr>
   = (Some \<lparr>adj_Mounts = tmpfsAdditions (\<lambda>_. False) tmpfsMounts,
            adj_Env = [(''container'', ''other'')]\<rparr>, None, None)"
proof -
  let ?c = "\<lparr>ctr_Id = ''abc123'', ctr_Name = ''test-container'', ctr_Args = [''/sbin/init''],
      ctr_Env = [''PATH=/usr/bin'', ''container_uuid=user-value''],
      ctr_Mounts = [\<lparr>mnt_Destination = ''/sys/fs/cgroup'', mnt_Type = ''cgroup'',
                      mnt_Source = ''cgroup'', mnt_Options = [''nosuid'', ''rw'']\<rparr>]\<rparr>"
  let ?pod = "Some \<lparr>pod_Name = ''test-pod'',
      pod_Annotations = [''io.kubernetes.pod.uid'' \<mapsto> ''xyz'']\<rparr>"
  have h: "''container_uuid='' @ ''user-value'' \<in> set (ctr_Env ?c)"
    by simp
  have sys: "isSystemdContainer ?c"
    by (simp add: isSystemdContainer_def)
  have m: "adj_Mounts (setSystemdEnvironment (addSystemdTmpfsMounts emptyAdjustment ?c) ?pod ?c)
      = tmpfsAdditions (\<lambda>_. False) tmpfsMounts"
    by (simp add: setSystemdEnvironment_Mounts addSystemdTmpfsMounts_Mounts
        emptyAdjustment_def tmpfsAdditions_def tmpfsMounts_def)
  have r: "CreateContainer StatOk ?pod ?c =
      (Some (setSystemdEnvironment (addSystemdTmpfsMounts emptyAdjustment ?c) ?pod ?c), None, None)"
    using sys by (simp add: CreateContainer_systemd configureCgroupMount_cases)
  from declared_container_uuid_wins [OF h, of emptyAdjustment ?pod StatOk] r
  have "adj_Env (setSystemdEnvironment (addSystemdTmpfsMounts emptyAdjustment ?c) ?pod ?c)
      = [(''container'', ''other'')]"
    by blast
  with m r show ?thesis
    by simp
qed

text \<open>
  C1. The spec asks that the adjustment records at most one \<open>container_uuid\<close> addition, and that when
  the declared environment has no \<open>container_uuid\<close> entry a non-empty container id takes
  priority over the sandbox annotation \<open>io.kubernetes.pod.uid\<close>, so that only
  \<open>container_uuid=<id>\<close> is added. The code does not do this: the annotation branch of
  \<open>setSystemdEnvironment\<close> only tests that no entry is declared, not that the id was
  used. For a container with an empty environment, id \<open>abc123\<close> and a sandbox annotated
  with \<open>io.kubernetes.pod.uid = xyz\<close>, the handler records two \<open>container_uuid\<close>
  additions, the second one derived from the pod UID.
\<close>

theorem container_uuid_recorded_twice:
  "CreateContainer StatOk
     (Some \<lparr>pod_Name = ''test-pod'',
            pod_Annotations = [''io.kubernetes.pod.uid'' \<mapsto> ''xyz'']\<rparr>)
     \<lparr>ctr_Id = ''abc123'', ctr_Name = ''test-container'', ctr_Args = [''/sbin/init''],
      ctr_Env = [],
      ctr_Mounts = [\<lparr>mnt_Destination = ''/sys/fs/cgroup'', mnt_Type = ''cgroup'',
                      mnt_Source = ''cgroup'', mnt_Options = [''nosuid'', ''rw'']\<rparr>]\<rparr>
   = (Some \<lparr>adj_Mounts = tmpfsAdditions (\<lambda>_. False) tmpfsMounts,
            adj_Env = [(''container'', ''other''), (''container_uuid'', ''abc123''),
                       (''container_uuid'', ''xyz'')]\<rparr>, None, None)"
  by (simp add: CreateContainer_def isSystemdContainer_def configureCgroupMount_def
      addSystemdTmpfsMounts_def setSystemdEnvironment_def emptyAdjustment_def
      tmpfsMounts_def tmpfsAdditions_def tmpfsMount_def AddMount_def AddEnv_def
      HasPrefix_def Let_def)

section \<open>Host without a cgroup filesystem\<close>

text \<open>
  C7. For a detected systemd container on a host where \<open>/sys/fs/cgroup\<close> does not exist,
  the handler returns no error and an adjustment. Its mount directives are exactly the
  tmpfs additions for the catalog destinations the container does not declare, so none of
  them is a removal or an addition for \<open>/sys/fs/cgroup\<close>. Its environment additions are
  \<open>container=other\<close> followed by the \<open>container_uuid\<close> additions of the synthesizer; in
  particular a non-empty container id is added when no \<open>container_uuid\<close> is declared.
\<close>

theorem CreateContainer_host_without_cgroup:
  assumes "isSystemdContainer c"
  shows "\<exists>adj. CreateContainer StatNotExist pod c = (Some adj, None, None) \<and>
    adj_Mounts adj =
      tmpfsAdditions (\<lambda>dest. dest \<in> mnt_Destination ` set (ctr_Mounts c))
        [(''/run'', ''mode=755''), (''/run/lock'', ''mode=755''),
         (''/tmp'', ''mode=1777''), (''/var/log/journal'', ''mode=755'')] \<and>
    filter (\<lambda>d. directiveDestination d = ''/sys/fs/cgroup'') (adj_Mounts adj) = [] \<and>
    adj_Env adj = [(''container'', ''other'')] @ uuidFromId c @ uuidFromPod pod c \<and>
    ((\<forall>v. ''container_uuid='' @ v \<notin> set (ctr_Env c)) \<and> ctr_Id c \<noteq> '''' \<longrightarrow>
       (''container_uuid'', ctr_Id c) \<in> set (adj_Env adj))"
proof -
  have cfg: "configureCgroupMount StatNotExist emptyAdjustment c (containerName pod c) =
      (emptyAdjustment, None)"
    by (simp add: configureCgroupMount_def)
  let ?adj = "setSystemdEnvironment (addSystemdTmpfsMounts emptyAdjustment c) pod c"
  from assms cfg have r: "CreateContainer StatNotExist pod c = (Some ?adj, None, None)"
    by (simp add: CreateContainer_systemd)
  have m: "adj_Mounts ?adj =
      tmpfsAdditions (\<lambda>dest. dest \<in> mnt_Destination ` set (ctr_Mounts c)) tmpfsMounts"
    by (simp add: setSystemdEnvironment_Mounts addSystemdTmpfsMounts_Mounts emptyAdjustment_def)
  have e: "adj_Env ?adj = [(''container'', ''other'')] @ uuidFromId c @ uuidFromPod pod c"
    by (simp add: setSystemdEnvironment_Env addSystemdTmpfsMounts_Env emptyAdjustment_def)
  have u: "(''container_uuid'', ctr_Id c) \<in> set (adj_Env ?adj)"
    if "\<forall>v. ''container_uuid='' @ v \<notin> set (ctr_Env c)" and "ctr_Id c \<noteq> ''''"
    using that unfolding e by (simp add: uuidFromId_def hasContainerUUID_iff)
  have f: "filter (\<lambda>d. directiveDestination d = ''/sys/fs/cgroup'') (adj_Mounts ?adj) = []"
    unfolding m by (rule tmpfsAdditions_not_cgroup)
  from r m e u f show ?thesis
    unfolding tmpfsMounts_def by blast
qed

theorem CreateContainer_host_without_cgroup_witness:
  "CreateContainer StatNotExist (Some \<lparr>pod_Name = ''test-pod'', pod_Annotations = Map.empty\<rparr>)
     \<lparr>ctr_Id = ''abc123'', ctr_Name = ''test-container'', ctr_Args = [''/sbin/init''],
      ctr_Env = [''PATH=/usr/bin''],
      ctr_Mounts = [\<lparr>mnt_Destination = ''/run'', mnt_Type = ''tmpfs'', mnt_Source = ''tmpfs'',
                      mnt_Options = [''rw'']\<rparr>]\<rparr>
   = (Some \<lparr>adj_Mounts =
        [MountAddition \<lparr>mnt_Destination = ''/run/lock'', mnt_Type = ''tmpfs'',
           mnt_Source = ''tmpfs'',
           mnt_Options = [''rw'', ''rprivate'', ''nosuid'', ''nodev'', ''mode=755'']\<rparr>,
         MountAddition \<lparr>mnt_Destination = ''/tmp'', mnt_Type = ''tmpfs'', mnt_Source = ''tmpfs'',
           mnt_Options = [''rw'', ''rprivate'', ''nosuid'', ''nodev'', ''mode=1777'']\<rparr>,
         MountAddition \<lparr>mnt_Destination = ''/var/log/journal'', mnt_Type = ''tmpfs'',
           mnt_Source = ''tmpfs'',
           mnt_Options = [''rw'', ''rprivate'', ''nosuid'', ''nodev'', ''mode=755'']\<rparr>],
      adj_Env = [(''container'', ''other''), (''container_uuid'', ''abc123'')]\<rparr>, None, None)"
proof -
  let ?c = "\<lparr>ctr_Id = ''abc123'', ctr_Name = ''test-container'', ctr_Args = [''/sbin/init''],
      ctr_Env = [''PATH=/usr/bin''],
      ctr_Mounts = [\<lparr>mnt_Destination = ''/run'', mnt_Type = ''tmpfs'', mnt_Source = ''tmpfs'',
                      mnt_Options = [''rw'']\<rparr>]\<rparr>"
  have h: "isSystemdContainer ?c"
    by (simp add: isSystemdContainer_def)
  from CreateContainer_host_without_cgroup [OF h,
      of "Some \<lparr>pod_Name = ''test-pod'', pod_Annotations = Map.empty\<rparr>"]
  obtain adj where
    r: "CreateContainer StatNotExist
          (Some \<lparr>pod_Name = ''test-pod'', pod_Annotations = Map.empty\<rparr>) ?c
        = (Some adj, None, None)"
    and m: "adj_Mounts adj =
      tmpfsAdditions (\<lambda>dest. dest \<in> mnt_Destination ` set (ctr_Mounts ?c))
        [(''/run'', ''mode=755''), (''/run/lock'', ''mode=755''),
         (''/tmp'', ''mode=1777''), (''/var/log/journal'', ''mode=755'')]"
    and e: "adj_Env adj = [(''container'', ''other'')] @ uuidFromId ?c
        @ uuidFromPod (Some \<lparr>pod_Name = ''test-pod'', pod_Annotations = Map.empty\<rparr>) ?c"
    by blast
  from m have m': "adj_Mounts adj =
        [MountAddition \<lparr>mnt_Destination = ''/run/lock'', mnt_Type = ''tmpfs'',
           mnt_Source = ''tmpfs'',
           mnt_Options = [''rw'', ''rprivate'', ''nosuid'', ''nodev'', ''mode=755'']\<rparr>,
         MountAddition \<lparr>mnt_Destination = ''/tmp'', mnt_Type = ''tmpfs'', mnt_Source = ''tmpfs'',
           mnt_Options = [''rw'', ''rprivate'', ''nosuid'', ''nodev'', ''mode=1777'']\<rparr>,
         MountAddition \<lparr>mnt_Destination = ''/var/log/journal'', mnt_Type = ''tmpfs'',
           mnt_Source = ''tmpfs'',
           mnt_Options = [''rw'', ''rprivate'', ''nosuid'', ''nodev'', ''mode=755'']\<rparr>]"
    by (simp add: tmpfsAdditions_def)
  from e have e': "adj_Env adj = [(''container'', ''other''), (''container_uuid'', ''abc123'')]"
    by (simp add: uuidFromId_def uuidFromPod_def HasPrefix_def)
  from r m' e' show ?thesis
    by simp
qed

section \<open>Absent sandbox\<close>

lemma uuidFromPod_no_annotation:
  "pod_Annotations p ''io.kubernetes.pod.uid'' = None \<Longrightarrow> uuidFromPod (Some p) c = []"
  by (simp add: uuidFromPod_def)

lemma setSystemdEnvironment_pod:
  "setSystemdEnvironment a (Some p) c =
    (setSystemdEnvironment a None c)
      \<lparr>adj_Env := adj_Env (setSystemdEnvironment a None c) @ uuidFromPod (Some p) c\<rparr>"
  by (simp add: setSystemdEnvironment_def uuidFromPod_def Let_def AddEnv_def
      split: option.splits)

lemma configureCgroupMount_label:
  "configureCgroupMount stat a c n = configureCgroupMount stat a c n'"
  by (simp add: configureCgroupMount_def)

text \<open>
  C10. The handler accepts a nil sandbox. The label is then the bare container name, and
  the synthesizer adds \<open>container=other\<close> and, when no \<open>container_uuid\<close> is declared and
  the id is not empty, \<open>container_uuid=<id>\<close>, and nothing derived from annotations.
  Everything else is as with a sandbox: the result for a sandbox \<open>p\<close> is the result for
  the nil sandbox with the pod-UID addition of \<open>p\<close> appended to the environment
  additions, so the two results are equal when \<open>p\<close> has no \<open>io.kubernetes.pod.uid\<close>
  annotation.
\<close>

theorem CreateContainer_nil_sandbox:
  "containerName None c = ctr_Name c
   \<and> adj_Mounts (setSystemdEnvironment a None c) = adj_Mounts a
   \<and> adj_Env (setSystemdEnvironment a None c) =
       adj_Env a @ [(''container'', ''other'')] @
       (if \<not> hasContainerUUID (ctr_Env c) \<and> ctr_Id c \<noteq> ''''
        then [(''container_uuid'', ctr_Id c)] else [])
   \<and> CreateContainer stat (Some p) c =
       (case CreateContainer stat None c of
          (Some adj, upd, err) \<Rightarrow>
            (Some (adj\<lparr>adj_Env := adj_Env adj @ uuidFromPod (Some p) c\<rparr>), upd, err)
        | (None, upd, err) \<Rightarrow> (None, upd, err))
   \<and> (pod_Annotations p ''io.kubernetes.pod.uid'' = None \<longrightarrow>
        CreateContainer stat (Some p) c = CreateContainer stat None c)"
proof -
  have name: "containerName None c = ctr_Name c"
    by (simp add: containerName_def)
  have env: "adj_Env (setSystemdEnvironment a None c) =
       adj_Env a @ [(''container'', ''other'')] @
       (if \<not> hasContainerUUID (ctr_Env c) \<and> ctr_Id c \<noteq> ''''
        then [(''container_uuid'', ctr_Id c)] else [])"
    by (simp add: setSystemdEnvironment_Env uuidFromId_def uuidFromPod_def)
  have rel: "CreateContainer stat (Some p) c =
       (case CreateContainer stat None c of
          (Some adj, upd, err) \<Rightarrow>
            (Some (adj\<lparr>adj_Env := adj_Env adj @ uuidFromPod (Some p) c\<rparr>), upd, err)
        | (None, upd, err) \<Rightarrow> (None, upd, err))"
  proof (cases "isSystemdContainer c")
    case False
    then show ?thesis
      by (simp add: CreateContainer_def)
  next
    case True
    obtain b e where cfg:
      "configureCgroupMount stat emptyAdjustment c (containerName None c) = (b, e)"
      by (cases "configureCgroupMount stat emptyAdjustment c (containerName None c)")
    then have cfg': "configureCgroupMount stat emptyAdjustment c (containerName (Some p) c) = (b, e)"
      using configureCgroupMount_label by metis
    show ?thesis
      using True cfg cfg'
      by (cases e) (simp_all add: CreateContainer_systemd setSystemdEnvironment_pod)
  qed
  have same: "CreateContainer stat (Some p) c = CreateContainer stat None c"
    if "pod_Annotations p ''io.kubernetes.pod.uid'' = None"
    unfolding rel uuidFromPod_no_annotation [OF that]
    by (simp split: prod.splits option.splits)
  from name env rel same show ?thesis
    by (simp add: setSystemdEnvironment_Mounts)
qed

theorem CreateContainer_nil_sandbox_witness:
  "CreateContainer StatOk (Some \<lparr>pod_Name = ''test-pod'', pod_Annotations = Map.empty\<rparr>)
     \<lparr>ctr_Id = ''abc123'', ctr_Name = ''test-container'', ctr_Args = [''/sbin/init''],
      ctr_Env = [''PATH=/usr/bin''],
      ctr_Mounts = [\<lparr>mnt_Destination = ''/sys/fs/cgroup'', mnt_Type = ''cgroup'',
                      mnt_Source = ''cgroup'', mnt_Options = [''nosuid'', ''rw'']\<rparr>]\<rparr>
   = CreateContainer StatOk None
     \<lparr>ctr_Id = ''abc123'', ctr_Name = ''test-container'', ctr_Args = [''/sbin/init''],
      ctr_Env = [''PATH=/usr/bin''],
      ctr_Mounts = [\<lparr>mnt_Destination = ''/sys/fs/cgroup'', mnt_Type = ''cgroup'',
                      mnt_Source = ''cgroup'', mnt_Options = [''nosuid'', ''rw'']\<rparr>]\<rparr>
   \<and> adj_Env (setSystemdEnvironment emptyAdjustment None
     \<lparr>ctr_Id = ''abc123'', ctr_Name = ''test-container'', ctr_Args = [''/sbin/init''],
      ctr_Env = [''PATH=/usr/bin''],
      ctr_Mounts = [\<lparr>mnt_Destination = ''/sys/fs/cgroup'', mnt_Type = ''cgroup'',
                      mnt_Source = ''cgroup'', mnt_Options = [''nosuid'', ''rw'']\<rparr>]\<rparr>)
     = [(''container'', ''other''), (''container_uuid'', ''abc123'')]"
proof -
  let ?c = "\<lparr>ctr_Id = ''abc123'', ctr_Name = ''test-container'', ctr_Args = [''/sbin/init''],
      ctr_Env = [''PATH=/usr/bin''],
      ctr_Mounts = [\<lparr>mnt_Destination = ''/sys/fs/cgroup'', mnt_Type = ''cgroup'',
                      mnt_Source = ''cgroup'', mnt_Options = [''nosuid'', ''rw'']\<rparr>]\<rparr>"
  let ?p = "\<lparr>pod_Name = ''test-pod'', pod_Annotations = Map.empty\<rparr>"
  note t = CreateContainer_nil_sandbox [of ?c emptyAdjustment StatOk ?p]
  have h: "pod_Annotations ?p ''io.kubernetes.pod.uid'' = None"
    by simp
  have u: "\<not> hasContainerUUID (ctr_Env ?c) \<and> ctr_Id ?c \<noteq> ''''"
    by (simp add: HasPrefix_def)
  from t h have same: "CreateContainer StatOk (Some ?p) ?c = CreateContainer StatOk None ?c"
    by blast
  from t have "adj_Env (setSystemdEnvironment emptyAdjustment None ?c) =
       adj_Env emptyAdjustment @ [(''container'', ''other'')] @
       (if \<not> hasContainerUUID (ctr_Env ?c) \<and> ctr_Id ?c \<noteq> ''''
        then [(''container_uuid'', ctr_Id ?c)] else [])"
    by blast
  with u have env: "adj_Env (setSystemdEnvironment emptyAdjustment None ?c) =
      [(''container'', ''other''), (''container_uuid'', ''abc123'')]"
    by (simp add: emptyAdjustment_def)
  from same env show ?thesis
    by (rule conjI)
qed

section \<open>Idempotence\<close>

lemma foldl_applyMountDirective_tmpfs:
  "foldl applyMountDirective ms (tmpfsAdditions declared cat) =
    ms @ map (\<lambda>(dest, mode). tmpfsMount dest mode)
           (filter (\<lambda>(dest, mode). \<not> declared dest) cat)"
  by (induction cat arbitrary: ms) (auto simp: tmpfsAdditions_def tmpfsMount_def)

lemma addTmpfsLoop_all_declared:
  "(\<And>dest mode. (dest, mode) \<in> set cat \<Longrightarrow> em dest) \<Longrightarrow> addTmpfsLoop em a cat = a"
  by (induction em a cat rule: addTmpfsLoop.induct) auto

lemma catalog_declared_after:
  assumes "(dest, mode) \<in> set cat"
    and "dest \<in> mnt_Destination ` set ms0 \<Longrightarrow> dest \<in> mnt_Destination ` set ms"
  shows "dest \<in> mnt_Destination `
    set (ms @ map (\<lambda>(dest, mode). tmpfsMount dest mode)
                 (filter (\<lambda>(dest, mode). dest \<notin> mnt_Destination ` set ms0) cat))"
proof (cases "dest \<in> mnt_Destination ` set ms0")
  case True
  with assms(2) show ?thesis
    by auto
next
  case False
  with assms(1) have "tmpfsMount dest mode \<in>
      set (map (\<lambda>(dest, mode). tmpfsMount dest mode)
             (filter (\<lambda>(dest, mode). dest \<notin> mnt_Destination ` set ms0) cat))"
    by force
  moreover have "mnt_Destination (tmpfsMount dest mode) = dest"
    by (simp add: tmpfsMount_def)
  ultimately show ?thesis
    by (metis Un_iff image_eqI set_append)
qed

lemma addSystemdTmpfsMounts_all_declared:
  assumes "\<And>dest mode. (dest, mode) \<in> set tmpfsMounts \<Longrightarrow>
    dest \<in> mnt_Destination ` set (ctr_Mounts c)"
  shows "addSystemdTmpfsMounts a c = a"
  unfolding addSystemdTmpfsMounts_def Let_def existingMountsOf_empty
  by (rule addTmpfsLoop_all_declared) (rule assms)

lemma tmpfsMounts_not_cgroup: "(dest, mode) \<in> set tmpfsMounts \<Longrightarrow> dest \<noteq> ''/sys/fs/cgroup''"
  by (auto simp: tmpfsMounts_def)

lemma find_append_Some: "find P xs = Some x \<Longrightarrow> find P (xs @ ys) = Some x"
  by (induction xs) (auto split: if_splits)

lemma find_append_None: "find P xs = None \<Longrightarrow> find P (xs @ ys) = find P ys"
  by (induction xs) (auto split: if_splits)

lemma find_filter_neg: "find P (filter (\<lambda>x. \<not> P x) xs) = None"
  by (induction xs) auto

lemma isSystemdContainer_applyAdjustment:
  "isSystemdContainer (applyAdjustment adj c) = isSystemdContainer c"
  by (simp add: isSystemdContainer_def applyAdjustment_def)

lemma ctr_Mounts_applyAdjustment:
  "ctr_Mounts (applyAdjustment adj c) = foldl applyMountDirective (ctr_Mounts c) (adj_Mounts adj)"
  by (simp add: applyAdjustment_def)

text \<open>The two shapes of the mount directives of a returned adjustment.\<close>

lemma CreateContainer_Mounts_shape:
  assumes "CreateContainer stat pod c = (Some adj, upd, err)"
  shows "(adj_Mounts adj =
            tmpfsAdditions (\<lambda>d. d \<in> mnt_Destination ` set (ctr_Mounts c)) tmpfsMounts
          \<and> (stat = StatNotExist \<or>
              (\<exists>m. find (\<lambda>x. mnt_Destination x = ''/sys/fs/cgroup'') (ctr_Mounts c) = Some m
                 \<and> ''ro'' \<notin> set (mnt_Options m))))
       \<or> (\<exists>m. find (\<lambda>x. mnt_Destination x = ''/sys/fs/cgroup'') (ctr_Mounts c) = Some m
            \<and> adj_Mounts adj =
               [MountRemoval ''/sys/fs/cgroup'',
                MountAddition (m\<lparr>mnt_Options :=
                  map (\<lambda>opt. if opt = ''ro'' then ''rw'' else opt) (mnt_Options m)\<rparr>)]
               @ tmpfsAdditions (\<lambda>d. d \<in> mnt_Destination ` set (ctr_Mounts c)) tmpfsMounts)"
proof -
  from CreateContainer_Some(4) [OF assms] obtain b
    where cfg: "configureCgroupMount stat emptyAdjustment c (containerName pod c) = (b, None)"
      and adj: "adj = setSystemdEnvironment (addSystemdTmpfsMounts b c) pod c"
    by blast
  from adj have m: "adj_Mounts adj = adj_Mounts b @
      tmpfsAdditions (\<lambda>d. d \<in> mnt_Destination ` set (ctr_Mounts c)) tmpfsMounts"
    by (simp add: setSystemdEnvironment_Mounts addSystemdTmpfsMounts_Mounts)
  from cfg show ?thesis
    unfolding m
    by (auto simp: configureCgroupMount_cases emptyAdjustment_def
        split: if_splits option.splits)
qed

text \<open>
  C9. Let the handler return an adjustment for a container, and apply it: the cgroup mount
  is replaced as the removal and addition pair says and the added tmpfs mounts are
  appended. On the resulting container the injector adds no catalog mount again, since all
  four destinations are now declared. Under the same host probe, or under any host probe
  when the first run did rewrite the cgroup mount, the adjuster records nothing, since no
  \<open>ro\<close> is left, and the handler returns an adjustment without any mount directive.
\<close>

theorem engine_idempotent:
  assumes "CreateContainer st1 pod1 c = (Some adj, upd, err)"
  shows "addSystemdTmpfsMounts a (applyAdjustment adj c) = a
    \<and> (st2 = st1 \<or> MountRemoval ''/sys/fs/cgroup'' \<in> set (adj_Mounts adj) \<longrightarrow>
         configureCgroupMount st2 a (applyAdjustment adj c) n = (a, None)
         \<and> (\<exists>adj2. CreateContainer st2 pod2 (applyAdjustment adj c) = (Some adj2, None, None)
               \<and> adj_Mounts adj2 = []))"
proof -
  let ?cg = "''/sys/fs/cgroup''"
  let ?c' = "applyAdjustment adj c"
  let ?ms = "ctr_Mounts c"
  let ?T = "map (\<lambda>(dest, mode). tmpfsMount dest mode)
     (filter (\<lambda>(dest, mode). \<not> dest \<in> mnt_Destination ` set ?ms) tmpfsMounts)"
  let ?rw = "\<lambda>m. m\<lparr>mnt_Options := map (\<lambda>opt. if opt = ''ro'' then ''rw'' else opt) (mnt_Options m)\<rparr>"
  from CreateContainer_Some(1) [OF assms] have sys: "isSystemdContainer ?c'"
    by (simp add: isSystemdContainer_applyAdjustment)
  consider
    (plain) "adj_Mounts adj =
        tmpfsAdditions (\<lambda>d. d \<in> mnt_Destination ` set ?ms) tmpfsMounts"
      and "st1 = StatNotExist \<or>
        (\<exists>m. find (\<lambda>x. mnt_Destination x = ?cg) ?ms = Some m \<and> ''ro'' \<notin> set (mnt_Options m))"
    | (rewrite) m where "find (\<lambda>x. mnt_Destination x = ?cg) ?ms = Some m"
      and "adj_Mounts adj = [MountRemoval ?cg, MountAddition (?rw m)]
        @ tmpfsAdditions (\<lambda>d. d \<in> mnt_Destination ` set ?ms) tmpfsMounts"
    using CreateContainer_Mounts_shape [OF assms] by blast
  then have main: "(\<forall>dest mode. (dest, mode) \<in> set tmpfsMounts \<longrightarrow>
        dest \<in> mnt_Destination ` set (ctr_Mounts ?c'))
    \<and> (st2 = st1 \<or> MountRemoval ?cg \<in> set (adj_Mounts adj) \<longrightarrow>
         (\<forall>b n'. configureCgroupMount st2 b ?c' n' = (b, None)))"
  proof cases
    case plain
    have ms': "ctr_Mounts ?c' = ?ms @ ?T"
      by (simp add: ctr_Mounts_applyAdjustment plain(1) foldl_applyMountDirective_tmpfs)
    have cat: "dest \<in> mnt_Destination ` set (ctr_Mounts ?c')"
      if "(dest, mode) \<in> set tmpfsMounts" for dest mode
      unfolding ms' using that by (rule catalog_declared_after)
    have norem: "MountRemoval ?cg \<notin> set (adj_Mounts adj)"
      unfolding plain(1) by (auto simp: tmpfsAdditions_def)
    have cfg: "configureCgroupMount st2 b ?c' n' = (b, None)" if "st2 = st1" for b n'
    proof (cases "st1 = StatNotExist")
      case True
      with that show ?thesis
        by (simp add: configureCgroupMount_def)
    next
      case False
      with plain(2) obtain m
        where m: "find (\<lambda>x. mnt_Destination x = ?cg) ?ms = Some m"
          and ro: "''ro'' \<notin> set (mnt_Options m)"
        by blast
      from m have "find (\<lambda>x. mnt_Destination x = ?cg) (ctr_Mounts ?c') = Some m"
        unfolding ms' by (rule find_append_Some)
      with ro show ?thesis
        by (simp add: configureCgroupMount_cases)
    qed
    from cat norem cfg show ?thesis
      by blast
  next
    case (rewrite m)
    let ?kept = "filter (\<lambda>x. mnt_Destination x \<noteq> ?cg) ?ms"
    have ms': "ctr_Mounts ?c' = (?kept @ [?rw m]) @ ?T"
      by (simp add: ctr_Mounts_applyAdjustment rewrite(2) foldl_applyMountDirective_tmpfs)
    have cat: "dest \<in> mnt_Destination ` set (ctr_Mounts ?c')"
      if "(dest, mode) \<in> set tmpfsMounts" for dest mode
      unfolding ms' using that
    proof (rule catalog_declared_after)
      assume "dest \<in> mnt_Destination ` set ?ms"
      moreover from that have "dest \<noteq> ?cg"
        by (rule tmpfsMounts_not_cgroup)
      ultimately show "dest \<in> mnt_Destination ` set (?kept @ [?rw m])"
        by auto
    qed
    from rewrite(1) have dest: "mnt_Destination m = ?cg"
      by (simp add: findCgroupMount_find [symmetric] findCgroupMount_dest)
    have "find (\<lambda>x. mnt_Destination x = ?cg) ?kept = None"
      by (rule find_filter_neg)
    then have "find (\<lambda>x. mnt_Destination x = ?cg) (ctr_Mounts ?c')
        = find (\<lambda>x. mnt_Destination x = ?cg) ([?rw m] @ ?T)"
      unfolding ms' by (simp add: find_append_None)
    with dest have found: "find (\<lambda>x. mnt_Destination x = ?cg) (ctr_Mounts ?c') = Some (?rw m)"
      by simp
    have "''ro'' \<notin> set (mnt_Options (?rw m))"
      by auto
    with found have cfg: "configureCgroupMount st2 b ?c' n' = (b, None)" for b n'
      by (simp add: configureCgroupMount_cases)
    from cat cfg show ?thesis
      by blast
  qed
  from main have tmpfs: "addSystemdTmpfsMounts b ?c' = b" for b
    by (intro addSystemdTmpfsMounts_all_declared) blast
  have handler: "\<exists>adj2. CreateContainer st2 pod2 ?c' = (Some adj2, None, None) \<and> adj_Mounts adj2 = []"
    if "configureCgroupMount st2 emptyAdjustment ?c' (containerName pod2 ?c') = (emptyAdjustment, None)"
    using sys that
    by (simp add: CreateContainer_systemd tmpfs setSystemdEnvironment_Mounts emptyAdjustment_def)
  from main tmpfs handler show ?thesis
    by blast
qed

theorem engine_idempotent_witness:
  "CreateContainer StatOk None
     \<lparr>ctr_Id = ''abc123'', ctr_Name = ''test-container'', ctr_Args = [''/sbin/init''],
      ctr_Env = [],
      ctr_Mounts = [\<lparr>mnt_Destination = ''/sys/fs/cgroup'', mnt_Type = ''cgroup2'',
                      mnt_Source = ''cgroup'', mnt_Options = [''nosuid'', ''ro'']\<rparr>,
                    \<lparr>mnt_Destination = ''/tmp'', mnt_Type = ''bind'', mnt_Source = ''/data'',
                      mnt_Options = [''rw'']\<rparr>]\<rparr>
   = (Some \<lparr>adj_Mounts =
        [MountRemoval ''/sys/fs/cgroup'',
         MountAddition \<lparr>mnt_Destination = ''/sys/fs/cgroup'', mnt_Type = ''cgroup2'',
           mnt_Source = ''cgroup'', mnt_Options = [''nosuid'', ''rw'']\<rparr>,
         MountAddition \<lparr>mnt_Destination = ''/run'', mnt_Type = ''tmpfs'', mnt_Source = ''tmpfs'',
           mnt_Options = [''rw'', ''rprivate'', ''nosuid'', ''nodev'', ''mode=755'']\<rparr>,
         MountAddition \<lparr>mnt_Destination = ''/run/lock'', mnt_Type = ''tmpfs'',
           mnt_Source = ''tmpfs'',
           mnt_Options = [''rw'', ''rprivate'', ''nosuid'', ''nodev'', ''mode=755'']\<rparr>,
         MountAddition \<lparr>mnt_Destination = ''/var/log/journal'', mnt_Type = ''tmpfs'',
           mnt_Source = ''tmpfs'',
           mnt_Options = [''rw'', ''rprivate'', ''nosuid'', ''nodev'', ''mode=755'']\<rparr>],
      adj_Env = [(''container'', ''other''), (''container_uuid'', ''abc123'')]\<rparr>, None, None)
   \<and> (\<exists>adj2. CreateContainer StatOk None
        (applyAdjustment
          \<lparr>adj_Mounts =
            [MountRemoval ''/sys/fs/cgroup'',
             MountAddition \<lparr>mnt_Destination = ''/sys/fs/cgroup'', mnt_Type = ''cgroup2'',
               mnt_Source = ''cgroup'', mnt_Options = [''nosuid'', ''rw'']\<rparr>,
             MountAddition \<lparr>mnt_Destination = ''/run'', mnt_Type = ''tmpfs'',
               mnt_Source = ''tmpfs'',
               mnt_Options = [''rw'', ''rprivate'', ''nosuid'', ''nodev'', ''mode=755'']\<rparr>,
             MountAddition \<lparr>mnt_Destination = ''/run/lock'', mnt_Type = ''tmpfs'',
               mnt_Source = ''tmpfs'',
               mnt_Options = [''rw'', ''rprivate'', ''nosuid'', ''nodev'', ''mode=755'']\<rparr>,
             MountAddition \<lparr>mnt_Destination = ''/var/log/journal'', mnt_Type = ''tmpfs'',
               mnt_Source = ''tmpfs'',
               mnt_Options = [''rw'', ''rprivate'', ''nosuid'', ''nodev'', ''mode=755'']\<rparr>],
           adj_Env = [(''container'', ''other''), (''container_uuid'', ''abc123'')]\<rparr>
          \<lparr>ctr_Id = ''abc123'', ctr_Name = ''test-container'', ctr_Args = [''/sbin/init''],
           ctr_Env = [],
           ctr_Mounts = [\<lparr>mnt_Destination = ''/sys/fs/cgroup'', mnt_Type = ''cgroup2'',
                           mnt_Source = ''cgroup'', mnt_Options = [''nosuid'', ''ro'']\<rparr>,
                         \<lparr>mnt_Destination = ''/tmp'', mnt_Type = ''bind'',
                           mnt_Source = ''/data'', mnt_Options = [''rw'']\<rparr>]\<rparr>)
        = (Some adj2, None, None) \<and> adj_Mounts adj2 = [])"
proof -
  let ?c = "\<lparr>ctr_Id = ''abc123'', ctr_Name = ''test-container'', ctr_Args = [''/sbin/init''],
      ctr_Env = [],
      ctr_Mounts = [\<lparr>mnt_Destination = ''/sys/fs/cgroup'', mnt_Type = ''cgroup2'',
                      mnt_Source = ''cgroup'', mnt_Options = [''nosuid'', ''ro'']\<rparr>,
                    \<lparr>mnt_Destination = ''/tmp'', mnt_Type = ''bind'', mnt_Source = ''/data'',
                      mnt_Options = [''rw'']\<rparr>]\<rparr>"
  let ?adj = "\<lparr>adj_Mounts =
        [MountRemoval ''/sys/fs/cgroup'',
         MountAddition \<lparr>mnt_Destination = ''/sys/fs/cgroup'', mnt_Type = ''cgroup2'',
           mnt_Source = ''cgroup'', mnt_Options = [''nosuid'', ''rw'']\<rparr>,
         MountAddition \<lparr>mnt_Destination = ''/run'', mnt_Type = ''tmpfs'', mnt_Source = ''tmpfs'',
           mnt_Options = [''rw'', ''rprivate'', ''nosuid'', ''nodev'', ''mode=755'']\<rparr>,
         MountAddition \<lparr>mnt_Destination = ''/run/lock'', mnt_Type = ''tmpfs'',
           mnt_Source = ''tmpfs'',
           mnt_Options = [''rw'', ''rprivate'', ''nosuid'', ''nodev'', ''mode=755'']\<rparr>,
         MountAddition \<lparr>mnt_Destination = ''/var/log/journal'', mnt_Type = ''tmpfs'',
           mnt_Source = ''tmpfs'',
           mnt_Options = [''rw'', ''rprivate'', ''nosuid'', ''nodev'', ''mode=755'']\<rparr>],
      adj_Env = [(''container'', ''other''), (''container_uuid'', ''abc123'')]\<rparr>"
  have h: "CreateContainer StatOk None ?c = (Some ?adj, None, None)"
    by (simp add: CreateContainer_def isSystemdContainer_def configureCgroupMount_def
        addSystemdTmpfsMounts_def setSystemdEnvironment_def emptyAdjustment_def
        tmpfsMounts_def tmpfsMount_def AddMount_def RemoveMount_def AddEnv_def Let_def)
  from engine_idempotent [OF h, of emptyAdjustment StatOk "''test-container''" None]
  have "\<exists>adj2. CreateContainer StatOk None (applyAdjustment ?adj ?c) = (Some adj2, None, None)
      \<and> adj_Mounts adj2 = []"
    by blast
  with h show ?thesis
    by (rule conjI)
qed

end
